theory Spec2Isabelle
  imports Main
begin

section \<open>Space configuration: data model\<close>

text \<open>
  The \<open>configure-space\<close> sub-commands of \<open>pkg/kf/commands/spaces/config_space.go\<close> edit a
  \<open>v1alpha1.Space\<close> through a pointer. The records below hold the fields of the space that
  the mutators and accessors of that file read or write, nested as the Go structs are:
  \<open>space.Spec.Execution.Env\<close>, \<open>space.Spec.Execution.Domains\<close>,
  \<open>space.Spec.BuildpackBuild.Env\<close>, \<open>space.Spec.BuildpackBuild.ContainerRegistry\<close> and
  \<open>space.Spec.BuildpackBuild.BuilderImage\<close>. A Go slice is a list; a Go string is a
  \<open>string\<close>. The field \<open>Domain\<close> of a \<open>SpaceDomain\<close> is called \<open>Domain_name\<close> here, since
  \<open>Domain\<close> is the domain of a relation in HOL.
\<close>

record EnvVar =
  Name :: string
  Value :: string

record SpaceDomain =
  Domain_name :: string
  Default :: bool

record SpaceSpecExecution =
  Env :: "EnvVar list"
  Domains :: "SpaceDomain list"

record SpaceSpecBuildpackBuild =
  BuilderImage :: string
  ContainerRegistry :: string
  Env :: "EnvVar list"

record SpaceSpec =
  BuildpackBuild :: SpaceSpecBuildpackBuild
  Execution :: SpaceSpecExecution

record Space =
  Spec :: SpaceSpec

text \<open>
  A \<open>spaces.Mutator\<close> is a Go \<open>func(space *v1alpha1.Space) error\<close>: it changes the space in
  place and returns an error or \<open>nil\<close>. The model returns both, the error (\<open>None\<close> for
  \<open>nil\<close>, \<open>Some\<close> of the message otherwise) and the space as the call leaves it, so that what
  a failing mutator did to the object stays visible.
\<close>

type_synonym error = string

type_synonym Mutator = "Space \<Rightarrow> error option \<times> Space"

text \<open>Reading and assigning the nested fields the mutators work on.\<close>

definition Spec_Execution_Domains :: "Space \<Rightarrow> SpaceDomain list" where
  "Spec_Execution_Domains space = Domains (Execution (Spec space))"

definition assign_Spec_Execution_Domains :: "SpaceDomain list \<Rightarrow> Space \<Rightarrow> Space" where
  "assign_Spec_Execution_Domains ds space =
     space\<lparr>Spec := (Spec space)\<lparr>Execution := (Execution (Spec space))\<lparr>Domains := ds\<rparr>\<rparr>\<rparr>"

definition Spec_Execution_Env :: "Space \<Rightarrow> EnvVar list" where
  "Spec_Execution_Env space = SpaceSpecExecution.Env (Execution (Spec space))"

definition assign_Spec_Execution_Env :: "EnvVar list \<Rightarrow> Space \<Rightarrow> Space" where
  "assign_Spec_Execution_Env env space =
     space\<lparr>Spec := (Spec space)\<lparr>Execution :=
       (Execution (Spec space))\<lparr>SpaceSpecExecution.Env := env\<rparr>\<rparr>\<rparr>"

definition Spec_BuildpackBuild_Env :: "Space \<Rightarrow> EnvVar list" where
  "Spec_BuildpackBuild_Env space = SpaceSpecBuildpackBuild.Env (BuildpackBuild (Spec space))"

definition assign_Spec_BuildpackBuild_Env :: "EnvVar list \<Rightarrow> Space \<Rightarrow> Space" where
  "assign_Spec_BuildpackBuild_Env env space =
     space\<lparr>Spec := (Spec space)\<lparr>BuildpackBuild :=
       (BuildpackBuild (Spec space))\<lparr>SpaceSpecBuildpackBuild.Env := env\<rparr>\<rparr>\<rparr>"

section \<open>The domain mutators\<close>

subsection \<open>set-default-domain\<close>

text \<open>
  The loop of \<open>newSetDefaultDomainMutator\<close>,
  \<^verbatim>\<open>for i, d := range space.Spec.Execution.Domains { ... }\<close>,
  with the index \<open>i\<close>, the slice as written so far and the local \<open>found\<close> as its state.
  An entry whose name differs from \<open>domain\<close> has its flag cleared (the \<open>continue\<close> branch);
  any other entry sets \<open>found\<close> and has its flag set. The slice keeps its length, so
  \<open>ds ! i\<close> is only read below \<open>length ds\<close>.
\<close>

function setDefaultLoop ::
  "string \<Rightarrow> nat \<Rightarrow> SpaceDomain list \<Rightarrow> bool \<Rightarrow> SpaceDomain list \<times> bool" where
  "setDefaultLoop domain i ds found =
     (if i < length ds then
        (if Domain_name (ds ! i) \<noteq> domain
         then setDefaultLoop domain (Suc i) (ds[i := (ds ! i)\<lparr>Default := False\<rparr>]) found
         else setDefaultLoop domain (Suc i) (ds[i := (ds ! i)\<lparr>Default := True\<rparr>]) True)
      else (ds, found))"
  by pat_completeness auto
termination
  by (relation "measure (\<lambda>(domain, i, ds, found). length ds - i)") auto

declare setDefaultLoop.simps [simp del]

text \<open>
  The mutator runs the loop from index 0 with \<open>found = false\<close>. The writes of the loop go to
  the space's own slice, so they are part of the returned space on both exits; the error is
  \<^verbatim>\<open>fmt.Errorf("failed to find domain %s", domain)\<close>.
\<close>

definition newSetDefaultDomainMutator :: "string \<Rightarrow> Mutator" where
  "newSetDefaultDomainMutator domain space =
     (case setDefaultLoop domain 0 (Spec_Execution_Domains space) False of
        (ds, found) \<Rightarrow>
          (if \<not> found
           then (Some (''failed to find domain '' @ domain), assign_Spec_Execution_Domains ds space)
           else (None, assign_Spec_Execution_Domains ds space)))"

subsection \<open>append-domain\<close>

text \<open>
  \<^verbatim>\<open>append(space.Spec.Execution.Domains, v1alpha1.SpaceDomain{Domain: domain})\<close>: the
  composite literal leaves \<open>Default\<close> at its zero value \<open>false\<close>.
\<close>

definition newAppendDomainMutator :: "string \<Rightarrow> Mutator" where
  "newAppendDomainMutator domain space =
     (None, assign_Spec_Execution_Domains
              (Spec_Execution_Domains space @ [\<lparr>Domain_name = domain, Default = False\<rparr>]) space)"

text \<open>How many entries of a domain list are marked default, and how many carry a name.\<close>

definition defaultCount :: "SpaceDomain list \<Rightarrow> nat" where
  "defaultCount ds = length (filter Default ds)"

definition nameCount :: "string \<Rightarrow> SpaceDomain list \<Rightarrow> nat" where
  "nameCount domain ds = length (filter (\<lambda>d. Domain_name d = domain) ds)"

text \<open>What one pass of the loop does to a single entry.\<close>

definition markDefault :: "string \<Rightarrow> SpaceDomain \<Rightarrow> SpaceDomain" where
  "markDefault domain d = d\<lparr>Default := (Domain_name d = domain)\<rparr>"

subsection \<open>remove-domain\<close>

text \<open>
  Modelled from the spec: \<open>algorithms.Delete\<close> and the collection type
  \<open>v1alpha1.SpaceDomains\<close> it is called on (\<open>pkg/kf/algorithms\<close>, \<open>pkg/apis/kf/v1alpha1\<close>)
  are not among the sources. The specification describes the operation as "generic set
  difference keyed by domain name", to be "an explicit ordered-sequence filter": the entries
  of the first collection whose name is the name of no entry of the second, in their order.
\<close>

definition Delete :: "SpaceDomain list \<Rightarrow> SpaceDomain list \<Rightarrow> SpaceDomain list" where
  "Delete a b = filter (\<lambda>d. Domain_name d \<notin> Domain_name ` set b) a"

text \<open>
  \<open>newRemoveDomainMutator\<close> deletes the one-element collection
  \<^verbatim>\<open>v1alpha1.SpaceDomains{{Domain: domain}}\<close> from the space's domains and returns \<open>nil\<close>.
\<close>

definition newRemoveDomainMutator :: "string \<Rightarrow> Mutator" where
  "newRemoveDomainMutator domain space =
     (None, assign_Spec_Execution_Domains
              (Delete (Spec_Execution_Domains space) [\<lparr>Domain_name = domain, Default = False\<rparr>])
              space)"

section \<open>The environment mutators\<close>

text \<open>
  Modelled from the spec: \<open>envutil.RemoveEnvVars\<close> (\<open>pkg/internal/envutil\<close>) is not among the
  sources. By the specification, setting a variable is "removed-then-appended" with the
  "order of remaining vars preserved", and unsetting a key that is absent is a no-op: the
  function drops every variable whose name is one of the given names and keeps the others
  in their order.
\<close>

definition RemoveEnvVars :: "string list \<Rightarrow> EnvVar list \<Rightarrow> EnvVar list" where
  "RemoveEnvVars names env = filter (\<lambda>e. Name e \<notin> set names) env"

text \<open>
  The four mutators as written: \<open>set\<close> removes the name, then appends
  \<^verbatim>\<open>corev1.EnvVar{Name: name, Value: value}\<close>; \<open>unset\<close> only removes. All return \<open>nil\<close>.
\<close>

definition newSetEnvMutator :: "string \<Rightarrow> string \<Rightarrow> Mutator" where
  "newSetEnvMutator name value space =
     (let tmp = RemoveEnvVars [name] (Spec_Execution_Env space)
      in (None, assign_Spec_Execution_Env (tmp @ [\<lparr>Name = name, Value = value\<rparr>]) space))"

definition newUnsetEnvMutator :: "string \<Rightarrow> Mutator" where
  "newUnsetEnvMutator name space =
     (None, assign_Spec_Execution_Env (RemoveEnvVars [name] (Spec_Execution_Env space)) space)"

definition newSetBuildpackEnvMutator :: "string \<Rightarrow> string \<Rightarrow> Mutator" where
  "newSetBuildpackEnvMutator name value space =
     (let tmp = RemoveEnvVars [name] (Spec_BuildpackBuild_Env space)
      in (None, assign_Spec_BuildpackBuild_Env (tmp @ [\<lparr>Name = name, Value = value\<rparr>]) space))"

definition newUnsetBuildpackEnvMutator :: "string \<Rightarrow> Mutator" where
  "newUnsetBuildpackEnvMutator name space =
     (None, assign_Spec_BuildpackBuild_Env
              (RemoveEnvVars [name] (Spec_BuildpackBuild_Env space)) space)"

text \<open>The variables of a list that carry a given name, and those that do not.\<close>

definition named :: "string \<Rightarrow> EnvVar list \<Rightarrow> EnvVar list" where
  "named name env = filter (\<lambda>e. Name e = name) env"

definition others :: "string \<Rightarrow> EnvVar list \<Rightarrow> EnvVar list" where
  "others name env = filter (\<lambda>e. Name e \<noteq> name) env"

section \<open>The route proxy\<close>

subsection \<open>Gateway resolution\<close>

text \<open>
  Modelled from the spec: \<open>istio.ExtractIngressFromList\<close> (\<open>pkg/kf/istio\<close>) is not among the
  sources. The specification gives the contract \<open>resolve(candidates[]) -> (gateway, error)\<close>
  over a list of strings: exactly one candidate is returned, zero candidates are the error
  "no gateway found", more than one the error "ambiguous gateway, specify explicitly".
\<close>

definition ExtractIngressFromList :: "string list \<Rightarrow> error + string" where
  "ExtractIngressFromList candidates =
     (if length candidates = 1 then Inr (hd candidates)
      else if length candidates = 0 then Inl ''no gateway found''
      else Inl ''ambiguous gateway, specify explicitly'')"

subsection \<open>The director\<close>

text \<open>
  The parts of an \<open>http.Request\<close> and of its \<open>url.URL\<close> that the director touches or that a
  forwarded request is made of. \<open>Request.Host\<close> is the logical host of the request,
  \<open>URL.Host\<close> the network destination.
\<close>

record URL =
  Scheme :: string
  Host :: string
  Path :: string
  RawQuery :: string

record Request =
  Method :: string
  URL :: URL
  Host :: string
  Header :: "(string \<times> string) list"
  Body :: string

definition newline :: string where
  "newline = [CHR 0x0A]"

definition quote :: string where
  "quote = [CHR 0x22]"

text \<open>
  The \<open>Director\<close> closure of \<open>createProxy\<close>: three assignments to the request, then one
  line for the logger, \<^verbatim>\<open>logger.Printf("%s %s\n", req.Method, req.URL.RequestURI())\<close>.
  The result is the request as the director leaves it and the message handed to the logger.
  \<open>RequestURI\<close> is the method of Go's \<open>net/url\<close>; it is a parameter here. The proxy
  calls the director on requests of the HTTP server, whose \<open>URL\<close> is never \<open>nil\<close>.
\<close>

definition Director :: "(URL \<Rightarrow> string) \<Rightarrow> string \<Rightarrow> string \<Rightarrow> Request \<Rightarrow> Request \<times> string" where
  "Director RequestURI routeHost gateway req =
     (let req1 = req\<lparr>Request.Host := routeHost\<rparr>;
          req2 = req1\<lparr>URL := (URL req1)\<lparr>Scheme := ''http''\<rparr>\<rparr>;
          req3 = req2\<lparr>URL := (URL req2)\<lparr>URL.Host := gateway\<rparr>\<rparr>
      in (req3, Method req3 @ '' '' @ RequestURI (URL req3) @ newline))"

subsection \<open>The command\<close>

text \<open>
  What \<open>RunE\<close> of \<open>NewProxyRouteCommand\<close> gets from outside: the result of
  \<open>utils.ValidateNamespace(p)\<close>, the candidates of \<open>ingressLister.ListIngresses()\<close>, and for
  each port the result of \<^verbatim>\<open>net.Listen("tcp", "127.0.0.1:<port>")\<close>, an error or a listener,
  which is known by its address \<open>listener.Addr()\<close>.
\<close>

record World =
  ValidateNamespace :: "error option"
  ListIngresses :: "string list"
  Listen :: "int \<Rightarrow> error + string"

text \<open>
  \<open>RunE\<close> ends in one of two ways: it returns an error or \<open>nil\<close>, or it calls
  \<^verbatim>\<open>http.Serve(listener, createProxy(w, host, gateway))\<close>, the only place where connections
  are accepted on the listener and requests are forwarded.
\<close>

datatype outcome = Return "error option" | Serve string string string

fun serves :: "outcome \<Rightarrow> bool" where
  "serves (Return err) = False"
| "serves (Serve listener host gateway) = True"

text \<open>The gateway: the \<open>--gateway\<close> flag, or autodetection (with a notice) when it is empty.\<close>

definition resolveGateway :: "World \<Rightarrow> string \<Rightarrow> string list \<times> (error + string)" where
  "resolveGateway w gateway =
     (if gateway = ''''
      then ([''Autodetecting app gateway. Specify a custom gateway using the --gateway flag.''
               @ newline],
            ExtractIngressFromList (ListIngresses w))
      else ([], Inr gateway))"

text \<open>The ten writes between \<open>net.Listen\<close> and the test of \<open>noStart\<close>.\<close>

definition banner :: "string \<Rightarrow> string \<Rightarrow> string \<Rightarrow> string list" where
  "banner addr gateway host =
     [''Forwarding requests from '' @ addr @ '' to '' @ gateway @ '' with host '' @ host @ newline,
      ''Example GET:'' @ newline,
      ''  curl '' @ addr @ newline,
      ''  (curl -H '' @ quote @ ''Host: '' @ host @ quote @ '' http://'' @ gateway @ '')'' @ newline,
      ''Example POST:'' @ newline,
      ''  curl --request POST '' @ addr @ '' --data '' @ quote @ ''POST data'' @ quote @ newline,
      ''  (curl --request POST -H '' @ quote @ ''Host: '' @ host @ quote @ '' http://'' @ gateway
         @ '' --data '' @ quote @ ''POST data'' @ quote @ '')'' @ newline,
      ''Browser link:'' @ newline,
      ''  http://'' @ addr @ newline,
      newline]"

text \<open>
  \<open>RunE\<close> with the flags \<open>gateway\<close>, \<open>port\<close> and \<open>noStart\<close> and the one argument \<open>host\<close>
  (\<open>cobra.ExactArgs(1)\<close>). The result is what was written to the command's output, in
  order, and how the call ended.
\<close>

definition RunE :: "World \<Rightarrow> string \<Rightarrow> int \<Rightarrow> bool \<Rightarrow> string \<Rightarrow> string list \<times> outcome" where
  "RunE w gateway port noStart host =
     (case ValidateNamespace w of
        Some err \<Rightarrow> ([], Return (Some err))
      | None \<Rightarrow>
          (case resolveGateway w gateway of
             (out, Inl err) \<Rightarrow> (out, Return (Some err))
           | (out, Inr gateway') \<Rightarrow>
               (case Listen w port of
                  Inl err \<Rightarrow> (out, Return (Some err))
                | Inr addr \<Rightarrow>
                    (if noStart
                     then (out @ banner addr gateway' host
                             @ [''exiting because no-start flag was provided'' @ newline],
                           Return None)
                     else (out @ banner addr gateway' host, Serve addr host gateway')))))"

section \<open>Example inputs\<close>

text \<open>A space with the given environment and domains, for evaluating the mutators.\<close>

definition exampleSpace :: "EnvVar list \<Rightarrow> SpaceDomain list \<Rightarrow> Space" where
  "exampleSpace env ds =
     \<lparr>Spec = \<lparr>BuildpackBuild = \<lparr>BuilderImage = ''gcr.io/my-project/builder:latest'',
                                ContainerRegistry = ''gcr.io/my-project'',
                                Env = env\<rparr>,
              Execution = \<lparr>SpaceSpecExecution.Env = env, Domains = ds\<rparr>\<rparr>\<rparr>"

definition exampleWorld :: "string list \<Rightarrow> World" where
  "exampleWorld candidates =
     \<lparr>ValidateNamespace = None, ListIngresses = candidates,
      Listen = (\<lambda>port. if port = 8080 then Inr ''127.0.0.1:8080''
                       else Inl ''listen tcp: address already in use'')\<rparr>"

definition exampleRequest :: Request where
  "exampleRequest =
     \<lparr>Method = ''POST'',
      URL = \<lparr>Scheme = ''https'', Host = ''localhost:8080'', Path = ''/api/v1'', RawQuery = ''q=1''\<rparr>,
      Host = ''localhost:8080'',
      Header = [(''Content-Type'', ''text/plain'')],
      Body = ''POST data''\<rparr>"

section \<open>Properties of the domain mutators\<close>

lemma Spec_Execution_Domains_assign [simp]:
  "Spec_Execution_Domains (assign_Spec_Execution_Domains ds space) = ds"
  by (simp add: Spec_Execution_Domains_def assign_Spec_Execution_Domains_def)

lemma assign_Spec_Execution_Domains_same [simp]:
  "assign_Spec_Execution_Domains (Spec_Execution_Domains space) space = space"
  by (simp add: Spec_Execution_Domains_def assign_Spec_Execution_Domains_def)

lemma assign_Spec_Execution_Domains_twice [simp]:
  "assign_Spec_Execution_Domains ds (assign_Spec_Execution_Domains ds' space) =
   assign_Spec_Execution_Domains ds space"
  by (simp add: assign_Spec_Execution_Domains_def)

lemma setDefaultLoop_eq:
  "setDefaultLoop domain i ds found =
     (take i ds @ map (markDefault domain) (drop i ds),
      found \<or> (\<exists>d \<in> set (drop i ds). Domain_name d = domain))"
proof (induction domain i ds found rule: setDefaultLoop.induct)
  case (1 domain i ds found)
  show ?case
  proof (cases "i < length ds")
    case False
    then show ?thesis
      by (simp add: setDefaultLoop.simps [of domain i ds found])
  next
    case True
    have split: "drop i ds = ds ! i # drop (Suc i) ds"
      using True by (simp add: Cons_nth_drop_Suc)
    have upd: "take (Suc i) (ds[i := x]) = take i ds @ [x]"
      "drop (Suc i) (ds[i := x]) = drop (Suc i) ds" for x
      using True by (simp_all add: take_Suc_conv_app_nth)
    show ?thesis
    proof (cases "Domain_name (ds ! i) \<noteq> domain")
      case differs: True
      have "setDefaultLoop domain i ds found =
            setDefaultLoop domain (Suc i) (ds[i := (ds ! i)\<lparr>Default := False\<rparr>]) found"
        using True differs by (simp add: setDefaultLoop.simps [of domain i ds found])
      also have "\<dots> = (take i ds @ [(ds ! i)\<lparr>Default := False\<rparr>]
                          @ map (markDefault domain) (drop (Suc i) ds),
                       found \<or> (\<exists>d \<in> set (drop (Suc i) ds). Domain_name d = domain))"
        using "1.IH"(1) [OF True differs] by (simp add: upd)
      finally show ?thesis
        using differs by (simp add: split markDefault_def)
    next
      case same: False
      have "setDefaultLoop domain i ds found =
            setDefaultLoop domain (Suc i) (ds[i := (ds ! i)\<lparr>Default := True\<rparr>]) True"
        using True same by (simp add: setDefaultLoop.simps [of domain i ds found])
      also have "\<dots> = (take i ds @ [(ds ! i)\<lparr>Default := True\<rparr>]
                          @ map (markDefault domain) (drop (Suc i) ds), True)"
        using "1.IH"(2) [OF True same] by (simp add: upd)
      finally show ?thesis
        using same by (simp add: split markDefault_def)
    qed
  qed
qed

lemma newSetDefaultDomainMutator_eq:
  "newSetDefaultDomainMutator domain space =
     (if domain \<in> Domain_name ` set (Spec_Execution_Domains space) then None
      else Some (''failed to find domain '' @ domain),
      assign_Spec_Execution_Domains
        (map (markDefault domain) (Spec_Execution_Domains space)) space)"
  by (auto simp: newSetDefaultDomainMutator_def setDefaultLoop_eq)

lemma Domain_name_markDefault [simp]:
  "Domain_name (markDefault domain d) = Domain_name d"
  by (simp add: markDefault_def)

lemma defaultCount_markDefault:
  "defaultCount (map (markDefault domain) ds) = nameCount domain ds"
  by (induction ds) (simp_all add: defaultCount_def nameCount_def markDefault_def)

lemma markDefault_idem [simp]:
  "markDefault domain (markDefault domain d) = markDefault domain d"
  by (simp add: markDefault_def)

lemma markDefault_absent:
  "domain \<notin> Domain_name ` set ds \<Longrightarrow>
   map (markDefault domain) ds = map (\<lambda>d. d\<lparr>Default := False\<rparr>) ds"
  by (induction ds) (auto simp: markDefault_def)

lemma clear_no_default:
  "defaultCount ds = 0 \<Longrightarrow> map (\<lambda>d. d\<lparr>Default := False\<rparr>) ds = ds"
  by (induction ds) (auto simp: defaultCount_def split: if_splits)

text \<open>
  C1, as stated: a set-default-domain call whose argument matches leaves exactly one entry
  marked default, also when several entries share the name. With the domains \<open>a.com\<close>,
  \<open>a.com\<close> (what \<open>append-domain a.com\<close> twice gives) the call succeeds and leaves two entries
  marked default.
\<close>

theorem setDefaultDomain_duplicate_names_counterexample:
  "snd (newAppendDomainMutator ''a.com''
          (snd (newAppendDomainMutator ''a.com'' (exampleSpace [] []))))
     = exampleSpace [] [\<lparr>Domain_name = ''a.com'', Default = False\<rparr>,
                        \<lparr>Domain_name = ''a.com'', Default = False\<rparr>]
   \<and> ''a.com'' \<in> Domain_name ` set (Spec_Execution_Domains
          (exampleSpace [] [\<lparr>Domain_name = ''a.com'', Default = False\<rparr>,
                            \<lparr>Domain_name = ''a.com'', Default = False\<rparr>]))
   \<and> fst (newSetDefaultDomainMutator ''a.com''
          (exampleSpace [] [\<lparr>Domain_name = ''a.com'', Default = False\<rparr>,
                            \<lparr>Domain_name = ''a.com'', Default = False\<rparr>])) = None
   \<and> defaultCount (Spec_Execution_Domains (snd (newSetDefaultDomainMutator ''a.com''
          (exampleSpace [] [\<lparr>Domain_name = ''a.com'', Default = False\<rparr>,
                            \<lparr>Domain_name = ''a.com'', Default = False\<rparr>])))) = 2"
  by (simp add: newSetDefaultDomainMutator_eq newAppendDomainMutator_def markDefault_def
      exampleSpace_def Spec_Execution_Domains_def assign_Spec_Execution_Domains_def
      defaultCount_def)

text \<open>
  C1, amended: when the argument is the name of at least one entry, set-default-domain
  succeeds; it changes nothing of the space but the default flags, the entries keep their
  names and order, and afterwards an entry is marked default exactly when its name is the
  argument. So there are as many default entries as entries of that name: exactly one when
  the name occurs once.
\<close>

theorem setDefaultDomain_marks_matching:
  assumes "domain \<in> Domain_name ` set (Spec_Execution_Domains space)"
  shows "fst (newSetDefaultDomainMutator domain space) = None
    \<and> snd (newSetDefaultDomainMutator domain space) =
        assign_Spec_Execution_Domains
          (Spec_Execution_Domains (snd (newSetDefaultDomainMutator domain space))) space
    \<and> map Domain_name (Spec_Execution_Domains (snd (newSetDefaultDomainMutator domain space)))
        = map Domain_name (Spec_Execution_Domains space)
    \<and> (\<forall>d \<in> set (Spec_Execution_Domains (snd (newSetDefaultDomainMutator domain space))).
          Default d \<longleftrightarrow> Domain_name d = domain)
    \<and> defaultCount (Spec_Execution_Domains (snd (newSetDefaultDomainMutator domain space)))
        = nameCount domain (Spec_Execution_Domains space)
    \<and> (nameCount domain (Spec_Execution_Domains space) = 1 \<longrightarrow>
        defaultCount (Spec_Execution_Domains (snd (newSetDefaultDomainMutator domain space))) = 1)"
proof -
  let ?old = "Spec_Execution_Domains space"
  have res: "newSetDefaultDomainMutator domain space =
             (None, assign_Spec_Execution_Domains (map (markDefault domain) ?old) space)"
    using assms by (simp add: newSetDefaultDomainMutator_eq)
  have new: "Spec_Execution_Domains (snd (newSetDefaultDomainMutator domain space)) =
             map (markDefault domain) ?old"
    by (simp add: res)
  have flags: "\<forall>d \<in> set (map (markDefault domain) ?old). Default d \<longleftrightarrow> Domain_name d = domain"
    by (auto simp: markDefault_def)
  show ?thesis
    unfolding new using flags by (simp add: res defaultCount_markDefault)
qed

theorem setDefaultDomain_marks_matching_witness:
  "''b.com'' \<in> Domain_name ` set (Spec_Execution_Domains
      (exampleSpace [] [\<lparr>Domain_name = ''a.com'', Default = True\<rparr>,
                        \<lparr>Domain_name = ''b.com'', Default = False\<rparr>,
                        \<lparr>Domain_name = ''c.com'', Default = True\<rparr>]))
   \<and> fst (newSetDefaultDomainMutator ''b.com''
      (exampleSpace [] [\<lparr>Domain_name = ''a.com'', Default = True\<rparr>,
                        \<lparr>Domain_name = ''b.com'', Default = False\<rparr>,
                        \<lparr>Domain_name = ''c.com'', Default = True\<rparr>])) = None
   \<and> defaultCount (Spec_Execution_Domains (snd (newSetDefaultDomainMutator ''b.com''
      (exampleSpace [] [\<lparr>Domain_name = ''a.com'', Default = True\<rparr>,
                        \<lparr>Domain_name = ''b.com'', Default = False\<rparr>,
                        \<lparr>Domain_name = ''c.com'', Default = True\<rparr>])))) = 1"
proof -
  let ?s = "exampleSpace [] [\<lparr>Domain_name = ''a.com'', Default = True\<rparr>,
                             \<lparr>Domain_name = ''b.com'', Default = False\<rparr>,
                             \<lparr>Domain_name = ''c.com'', Default = True\<rparr>]"
  have present: "''b.com'' \<in> Domain_name ` set (Spec_Execution_Domains ?s)"
    by (simp add: exampleSpace_def Spec_Execution_Domains_def)
  have once: "nameCount ''b.com'' (Spec_Execution_Domains ?s) = 1"
    by (simp add: exampleSpace_def Spec_Execution_Domains_def nameCount_def)
  show ?thesis
    using present once setDefaultDomain_marks_matching [OF present] by simp
qed

text \<open>
  C2, as stated: a set-default-domain call whose argument matches no entry returns the error
  and leaves the space unchanged. With the single domain \<open>a.com\<close>, marked default, the call
  for \<open>b.com\<close> returns the error, and the space it leaves has \<open>a.com\<close> no longer marked.
\<close>

theorem setDefaultDomain_not_found_counterexample:
  "''b.com'' \<notin> Domain_name ` set (Spec_Execution_Domains
          (exampleSpace [] [\<lparr>Domain_name = ''a.com'', Default = True\<rparr>]))
   \<and> fst (newSetDefaultDomainMutator ''b.com''
          (exampleSpace [] [\<lparr>Domain_name = ''a.com'', Default = True\<rparr>]))
     = Some ''failed to find domain b.com''
   \<and> snd (newSetDefaultDomainMutator ''b.com''
          (exampleSpace [] [\<lparr>Domain_name = ''a.com'', Default = True\<rparr>]))
     = exampleSpace [] [\<lparr>Domain_name = ''a.com'', Default = False\<rparr>]
   \<and> exampleSpace [] [\<lparr>Domain_name = ''a.com'', Default = False\<rparr>]
     \<noteq> exampleSpace [] [\<lparr>Domain_name = ''a.com'', Default = True\<rparr>]"
  by (simp add: newSetDefaultDomainMutator_eq markDefault_def exampleSpace_def
      Spec_Execution_Domains_def assign_Spec_Execution_Domains_def)

text \<open>
  C2, amended: when the argument is the name of no entry, set-default-domain returns the
  error \<open>failed to find domain\<close> followed by the argument; the space it leaves differs from
  the one it was applied to at most in the default flags, which are all cleared, so it is
  unchanged exactly when no entry was marked default before.
\<close>

theorem setDefaultDomain_not_found:
  assumes "domain \<notin> Domain_name ` set (Spec_Execution_Domains space)"
  shows "fst (newSetDefaultDomainMutator domain space) = Some (''failed to find domain '' @ domain)
    \<and> snd (newSetDefaultDomainMutator domain space) =
        assign_Spec_Execution_Domains
          (map (\<lambda>d. d\<lparr>Default := False\<rparr>) (Spec_Execution_Domains space)) space
    \<and> (snd (newSetDefaultDomainMutator domain space) = space
        \<longleftrightarrow> defaultCount (Spec_Execution_Domains space) = 0)"
proof -
  let ?old = "Spec_Execution_Domains space"
  let ?cleared = "map (\<lambda>d. d\<lparr>Default := False\<rparr>) ?old"
  have res: "newSetDefaultDomainMutator domain space =
             (Some (''failed to find domain '' @ domain), assign_Spec_Execution_Domains ?cleared space)"
    using assms by (simp add: newSetDefaultDomainMutator_eq markDefault_absent)
  have "assign_Spec_Execution_Domains ?cleared space = space \<longleftrightarrow> defaultCount ?old = 0"
  proof
    assume "assign_Spec_Execution_Domains ?cleared space = space"
    then have "Spec_Execution_Domains (assign_Spec_Execution_Domains ?cleared space) = ?old"
      by simp
    then have "?cleared = ?old" by simp
    then have "defaultCount ?cleared = defaultCount ?old" by simp
    moreover have "defaultCount ?cleared = 0"
      by (simp add: defaultCount_def)
    ultimately show "defaultCount ?old = 0" by simp
  next
    assume "defaultCount ?old = 0"
    then show "assign_Spec_Execution_Domains ?cleared space = space"
      by (simp add: clear_no_default)
  qed
  then show ?thesis by (simp add: res)
qed

theorem setDefaultDomain_not_found_witness:
  "''b.com'' \<notin> Domain_name ` set (Spec_Execution_Domains
      (exampleSpace [] [\<lparr>Domain_name = ''a.com'', Default = False\<rparr>]))
   \<and> newSetDefaultDomainMutator ''b.com''
        (exampleSpace [] [\<lparr>Domain_name = ''a.com'', Default = False\<rparr>])
     = (Some ''failed to find domain b.com'',
        exampleSpace [] [\<lparr>Domain_name = ''a.com'', Default = False\<rparr>])"
proof -
  let ?s = "exampleSpace [] [\<lparr>Domain_name = ''a.com'', Default = False\<rparr>]"
  have absent: "''b.com'' \<notin> Domain_name ` set (Spec_Execution_Domains ?s)"
    by (simp add: exampleSpace_def Spec_Execution_Domains_def)
  have none: "defaultCount (Spec_Execution_Domains ?s) = 0"
    by (simp add: exampleSpace_def Spec_Execution_Domains_def defaultCount_def)
  note found = setDefaultDomain_not_found [OF absent]
  from found have err: "fst (newSetDefaultDomainMutator ''b.com'' ?s)
                        = Some ''failed to find domain b.com''"
    by simp
  from found none have same: "snd (newSetDefaultDomainMutator ''b.com'' ?s) = ?s"
    by blast
  show ?thesis
    using absent err same by (simp only: prod_eq_iff fst_conv snd_conv simp_thms)
qed

lemma Delete_single:
  "Delete ds [\<lparr>Domain_name = domain, Default = flag\<rparr>] = filter (\<lambda>d. Domain_name d \<noteq> domain) ds"
  by (simp add: Delete_def)

lemma newRemoveDomainMutator_eq:
  "newRemoveDomainMutator domain space =
     (None, assign_Spec_Execution_Domains
              (filter (\<lambda>d. Domain_name d \<noteq> domain) (Spec_Execution_Domains space)) space)"
  by (simp add: newRemoveDomainMutator_def Delete_single)

lemma filter_absent_name:
  "domain \<notin> Domain_name ` set ds \<Longrightarrow> filter (\<lambda>d. Domain_name d \<noteq> domain) ds = ds"
  by (induction ds) auto

lemma markDefault_twice:
  "map (markDefault domain \<circ> markDefault domain) ds = map (markDefault domain) ds"
  by simp

text \<open>
  C3: remove-domain never returns an error; the domains it leaves are the old ones without
  the entries named by the argument, in their order, and nothing else of the space changes;
  when no entry has that name the space is exactly as it was.
\<close>

theorem removeDomain_set_difference:
  "fst (newRemoveDomainMutator domain space) = None
   \<and> Spec_Execution_Domains (snd (newRemoveDomainMutator domain space))
       = filter (\<lambda>d. Domain_name d \<noteq> domain) (Spec_Execution_Domains space)
   \<and> snd (newRemoveDomainMutator domain space)
       = assign_Spec_Execution_Domains
           (Spec_Execution_Domains (snd (newRemoveDomainMutator domain space))) space
   \<and> (domain \<notin> Domain_name ` set (Spec_Execution_Domains space)
        \<longrightarrow> newRemoveDomainMutator domain space = (None, space))"
  by (simp add: newRemoveDomainMutator_eq filter_absent_name)

theorem removeDomain_set_difference_witness:
  "''c.com'' \<notin> Domain_name ` set (Spec_Execution_Domains
      (exampleSpace [] [\<lparr>Domain_name = ''a.com'', Default = True\<rparr>,
                        \<lparr>Domain_name = ''b.com'', Default = False\<rparr>]))
   \<and> newRemoveDomainMutator ''c.com''
        (exampleSpace [] [\<lparr>Domain_name = ''a.com'', Default = True\<rparr>,
                          \<lparr>Domain_name = ''b.com'', Default = False\<rparr>])
     = (None, exampleSpace [] [\<lparr>Domain_name = ''a.com'', Default = True\<rparr>,
                               \<lparr>Domain_name = ''b.com'', Default = False\<rparr>])"
proof -
  let ?s = "exampleSpace [] [\<lparr>Domain_name = ''a.com'', Default = True\<rparr>,
                             \<lparr>Domain_name = ''b.com'', Default = False\<rparr>]"
  have absent: "''c.com'' \<notin> Domain_name ` set (Spec_Execution_Domains ?s)"
    by (simp add: exampleSpace_def Spec_Execution_Domains_def)
  from removeDomain_set_difference [of "''c.com''" ?s] absent
  have "newRemoveDomainMutator ''c.com'' ?s = (None, ?s)"
    by blast
  with absent show ?thesis
    by (simp only: simp_thms)
qed

text \<open>
  C4: append-domain succeeds and puts one new entry with the given name at the end of the
  domain list, whatever the list already holds: the list grows by one, and so does the
  number of entries with that name.
\<close>

theorem appendDomain_appends:
  "fst (newAppendDomainMutator domain space) = None
   \<and> Spec_Execution_Domains (snd (newAppendDomainMutator domain space))
       = Spec_Execution_Domains space @ [\<lparr>Domain_name = domain, Default = False\<rparr>]
   \<and> length (Spec_Execution_Domains (snd (newAppendDomainMutator domain space)))
       = Suc (length (Spec_Execution_Domains space))
   \<and> nameCount domain (Spec_Execution_Domains (snd (newAppendDomainMutator domain space)))
       = Suc (nameCount domain (Spec_Execution_Domains space))
   \<and> snd (newAppendDomainMutator domain space)
       = assign_Spec_Execution_Domains
           (Spec_Execution_Domains (snd (newAppendDomainMutator domain space))) space"
  by (simp add: newAppendDomainMutator_def nameCount_def)

text \<open>
  C10: the entry that append-domain adds is not marked default, and the entries before it
  are the old ones, unchanged; the default entries of the list are the same as before.
\<close>

theorem appendDomain_keeps_defaults:
  "Default (last (Spec_Execution_Domains (snd (newAppendDomainMutator domain space)))) = False
   \<and> take (length (Spec_Execution_Domains space))
        (Spec_Execution_Domains (snd (newAppendDomainMutator domain space)))
       = Spec_Execution_Domains space
   \<and> filter Default (Spec_Execution_Domains (snd (newAppendDomainMutator domain space)))
       = filter Default (Spec_Execution_Domains space)
   \<and> defaultCount (Spec_Execution_Domains (snd (newAppendDomainMutator domain space)))
       = defaultCount (Spec_Execution_Domains space)"
  by (simp add: newAppendDomainMutator_def defaultCount_def)

text \<open>
  C9: applying remove-domain a second time with the same name gives what the first
  application gave, and so does set-default-domain (with the same error or success, whether
  the name is present or not).
\<close>

theorem domain_mutators_idempotent:
  "newRemoveDomainMutator domain (snd (newRemoveDomainMutator domain space))
     = newRemoveDomainMutator domain space
   \<and> newSetDefaultDomainMutator domain (snd (newSetDefaultDomainMutator domain space))
     = newSetDefaultDomainMutator domain space"
proof
  show "newRemoveDomainMutator domain (snd (newRemoveDomainMutator domain space))
        = newRemoveDomainMutator domain space"
    by (simp add: newRemoveDomainMutator_eq)
next
  have names: "Domain_name ` set (map (markDefault domain) ds) = Domain_name ` set ds" for ds
    by (simp add: image_image)
  show "newSetDefaultDomainMutator domain (snd (newSetDefaultDomainMutator domain space))
        = newSetDefaultDomainMutator domain space"
    using names [of "Spec_Execution_Domains space"]
    by (simp add: newSetDefaultDomainMutator_eq markDefault_twice del: set_map)
qed

section \<open>Properties of the environment mutators\<close>

lemma Spec_Execution_Env_assign [simp]:
  "Spec_Execution_Env (assign_Spec_Execution_Env env space) = env"
  by (simp add: Spec_Execution_Env_def assign_Spec_Execution_Env_def)

lemma assign_Spec_Execution_Env_same [simp]:
  "assign_Spec_Execution_Env (Spec_Execution_Env space) space = space"
  by (simp add: Spec_Execution_Env_def assign_Spec_Execution_Env_def)

lemma Spec_BuildpackBuild_Env_assign [simp]:
  "Spec_BuildpackBuild_Env (assign_Spec_BuildpackBuild_Env env space) = env"
  by (simp add: Spec_BuildpackBuild_Env_def assign_Spec_BuildpackBuild_Env_def)

lemma assign_Spec_BuildpackBuild_Env_same [simp]:
  "assign_Spec_BuildpackBuild_Env (Spec_BuildpackBuild_Env space) space = space"
  by (simp add: Spec_BuildpackBuild_Env_def assign_Spec_BuildpackBuild_Env_def)

lemma RemoveEnvVars_single: "RemoveEnvVars [name] env = others name env"
  by (simp add: RemoveEnvVars_def others_def)

lemma others_absent: "name \<notin> Name ` set env \<Longrightarrow> others name env = env"
  unfolding others_def by (induction env) auto

lemma named_set_result:
  "named name (others name env @ [\<lparr>Name = name, Value = value\<rparr>]) = [\<lparr>Name = name, Value = value\<rparr>]"
  unfolding named_def others_def by (induction env) auto

lemma others_set_result:
  "others name (others name env @ [\<lparr>Name = name, Value = value\<rparr>]) = others name env"
  by (simp add: others_def)

lemma newSetEnvMutator_eq:
  "newSetEnvMutator name value space =
     (None, assign_Spec_Execution_Env
              (others name (Spec_Execution_Env space) @ [\<lparr>Name = name, Value = value\<rparr>]) space)"
  by (simp add: newSetEnvMutator_def RemoveEnvVars_single)

lemma newSetBuildpackEnvMutator_eq:
  "newSetBuildpackEnvMutator name value space =
     (None, assign_Spec_BuildpackBuild_Env
              (others name (Spec_BuildpackBuild_Env space) @ [\<lparr>Name = name, Value = value\<rparr>])
              space)"
  by (simp add: newSetBuildpackEnvMutator_def RemoveEnvVars_single)

lemma newUnsetEnvMutator_absent:
  "name \<notin> Name ` set (Spec_Execution_Env space) \<Longrightarrow> newUnsetEnvMutator name space = (None, space)"
  by (simp add: newUnsetEnvMutator_def RemoveEnvVars_single others_absent)

lemma newUnsetBuildpackEnvMutator_absent:
  "name \<notin> Name ` set (Spec_BuildpackBuild_Env space) \<Longrightarrow>
   newUnsetBuildpackEnvMutator name space = (None, space)"
  by (simp add: newUnsetBuildpackEnvMutator_def RemoveEnvVars_single others_absent)

text \<open>
  C5: set-env succeeds and leaves the environment as the old variables with another name,
  in their order, followed by the variable set: the variables of that name are this one
  alone, the others are as before, and it is last. unset-env with a name that no variable
  has leaves the space as it was. set-buildpack-env and unset-buildpack-env do the same on
  the buildpack environment.
\<close>

theorem env_replace_or_insert:
  "fst (newSetEnvMutator name value space) = None
   \<and> Spec_Execution_Env (snd (newSetEnvMutator name value space))
       = others name (Spec_Execution_Env space) @ [\<lparr>Name = name, Value = value\<rparr>]
   \<and> named name (Spec_Execution_Env (snd (newSetEnvMutator name value space)))
       = [\<lparr>Name = name, Value = value\<rparr>]
   \<and> others name (Spec_Execution_Env (snd (newSetEnvMutator name value space)))
       = others name (Spec_Execution_Env space)
   \<and> last (Spec_Execution_Env (snd (newSetEnvMutator name value space)))
       = \<lparr>Name = name, Value = value\<rparr>
   \<and> (name \<notin> Name ` set (Spec_Execution_Env space)
        \<longrightarrow> newUnsetEnvMutator name space = (None, space))
   \<and> fst (newSetBuildpackEnvMutator name value space) = None
   \<and> Spec_BuildpackBuild_Env (snd (newSetBuildpackEnvMutator name value space))
       = others name (Spec_BuildpackBuild_Env space) @ [\<lparr>Name = name, Value = value\<rparr>]
   \<and> named name (Spec_BuildpackBuild_Env (snd (newSetBuildpackEnvMutator name value space)))
       = [\<lparr>Name = name, Value = value\<rparr>]
   \<and> others name (Spec_BuildpackBuild_Env (snd (newSetBuildpackEnvMutator name value space)))
       = others name (Spec_BuildpackBuild_Env space)
   \<and> last (Spec_BuildpackBuild_Env (snd (newSetBuildpackEnvMutator name value space)))
       = \<lparr>Name = name, Value = value\<rparr>
   \<and> (name \<notin> Name ` set (Spec_BuildpackBuild_Env space)
        \<longrightarrow> newUnsetBuildpackEnvMutator name space = (None, space))"
proof -
  have exec: "Spec_Execution_Env (snd (newSetEnvMutator name value space))
              = others name (Spec_Execution_Env space) @ [\<lparr>Name = name, Value = value\<rparr>]"
    by (simp add: newSetEnvMutator_eq)
  have build: "Spec_BuildpackBuild_Env (snd (newSetBuildpackEnvMutator name value space))
               = others name (Spec_BuildpackBuild_Env space) @ [\<lparr>Name = name, Value = value\<rparr>]"
    by (simp add: newSetBuildpackEnvMutator_eq)
  have ok: "fst (newSetEnvMutator name value space) = None"
    "fst (newSetBuildpackEnvMutator name value space) = None"
    by (simp_all add: newSetEnvMutator_eq newSetBuildpackEnvMutator_eq)
  show ?thesis
    unfolding exec build
    using ok newUnsetEnvMutator_absent [of name space]
      newUnsetBuildpackEnvMutator_absent [of name space]
    by (simp add: named_set_result others_set_result)
qed

theorem env_replace_or_insert_witness:
  "''X'' \<notin> Name ` set (Spec_Execution_Env
      (exampleSpace [\<lparr>Name = ''K'', Value = ''old''\<rparr>, \<lparr>Name = ''A'', Value = ''1''\<rparr>] []))
   \<and> newUnsetEnvMutator ''X''
        (exampleSpace [\<lparr>Name = ''K'', Value = ''old''\<rparr>, \<lparr>Name = ''A'', Value = ''1''\<rparr>] [])
     = (None, exampleSpace [\<lparr>Name = ''K'', Value = ''old''\<rparr>, \<lparr>Name = ''A'', Value = ''1''\<rparr>] [])
   \<and> ''X'' \<notin> Name ` set (Spec_BuildpackBuild_Env
      (exampleSpace [\<lparr>Name = ''K'', Value = ''old''\<rparr>, \<lparr>Name = ''A'', Value = ''1''\<rparr>] []))
   \<and> newUnsetBuildpackEnvMutator ''X''
        (exampleSpace [\<lparr>Name = ''K'', Value = ''old''\<rparr>, \<lparr>Name = ''A'', Value = ''1''\<rparr>] [])
     = (None, exampleSpace [\<lparr>Name = ''K'', Value = ''old''\<rparr>, \<lparr>Name = ''A'', Value = ''1''\<rparr>] [])"
proof -
  let ?s = "exampleSpace [\<lparr>Name = ''K'', Value = ''old''\<rparr>, \<lparr>Name = ''A'', Value = ''1''\<rparr>] []"
  have absent: "''X'' \<notin> Name ` set (Spec_Execution_Env ?s)"
    "''X'' \<notin> Name ` set (Spec_BuildpackBuild_Env ?s)"
    by (simp_all add: exampleSpace_def Spec_Execution_Env_def Spec_BuildpackBuild_Env_def)
  from env_replace_or_insert [of "''X''" "''v''" ?s] absent
  have "newUnsetEnvMutator ''X'' ?s = (None, ?s)"
    "newUnsetBuildpackEnvMutator ''X'' ?s = (None, ?s)"
    by blast+
  with absent show ?thesis
    by (simp only: simp_thms)
qed

section \<open>Properties of the route proxy\<close>

text \<open>
  C6: gateway resolution is a function of the candidate list alone. The empty list gives the
  error \<open>no gateway found\<close>, a list of one candidate gives that candidate, and a list of two
  or more candidates (a first, a second and any rest) gives the error
  \<open>ambiguous gateway, specify explicitly\<close>. The command asks for it exactly when the
  \<open>--gateway\<close> flag is empty.
\<close>

theorem gateway_resolution:
  "ExtractIngressFromList [] = Inl ''no gateway found''
   \<and> ExtractIngressFromList [c] = Inr c
   \<and> ExtractIngressFromList (c1 # c2 # cs) = Inl ''ambiguous gateway, specify explicitly''
   \<and> snd (resolveGateway w '''') = ExtractIngressFromList (ListIngresses w)"
  by (simp add: ExtractIngressFromList_def resolveGateway_def)

text \<open>
  C7: whatever request comes in, the director leaves it with the route host as its host,
  \<open>http\<close> as the scheme of its URL and the gateway as the host of its URL; method, path,
  query, headers and body are those of the incoming request.
\<close>

theorem director_rewrites_host:
  "Request.Host (fst (Director RequestURI routeHost gateway req)) = routeHost
   \<and> Scheme (URL (fst (Director RequestURI routeHost gateway req))) = ''http''
   \<and> URL.Host (URL (fst (Director RequestURI routeHost gateway req))) = gateway
   \<and> Method (fst (Director RequestURI routeHost gateway req)) = Method req
   \<and> Path (URL (fst (Director RequestURI routeHost gateway req))) = Path (URL req)
   \<and> RawQuery (URL (fst (Director RequestURI routeHost gateway req))) = RawQuery (URL req)
   \<and> Header (fst (Director RequestURI routeHost gateway req)) = Header req
   \<and> Body (fst (Director RequestURI routeHost gateway req)) = Body req"
  by (simp add: Director_def Let_def)

lemma RunE_serves_without_no_start:
  assumes "ValidateNamespace w = None"
    and "snd (resolveGateway w gateway) = Inr gateway'"
    and "Listen w port = Inr addr"
  shows "snd (RunE w gateway port False host) = Serve addr host gateway'"
  using assms by (cases "resolveGateway w gateway") (simp add: RunE_def)

text \<open>
  C8: with the no-start flag the command never reaches \<open>http.Serve\<close>, however it ends. When
  the namespace is valid, a gateway is resolved (the \<open>--gateway\<close> flag, or the single
  candidate found when the flag is empty) and the listener is bound, it returns \<open>nil\<close>, and
  what it has written is, line by line: the notice of autodetection if the flag was empty,
  the line with listener address, gateway and host, the example GET and POST commands for
  the listener and for the gateway, the browser link to the listener, an empty line, and the
  line that it exits. Each line ends with a line feed (\<open>CHR 0x0A\<close>); \<open>CHR 0x22\<close> is the
  double quote.
\<close>

theorem dry_run_does_not_serve:
  "\<not> serves (snd (RunE w gateway port True host))
   \<and> (ValidateNamespace w = None
        \<and> (if gateway = '''' then ExtractIngressFromList (ListIngresses w) else Inr gateway)
            = Inr resolved
        \<and> Listen w port = Inr addr
        \<longrightarrow> RunE w gateway port True host
            = ((if gateway = ''''
                then [''Autodetecting app gateway. Specify a custom gateway using the --gateway flag.''
                        @ [CHR 0x0A]]
                else [])
               @ [''Forwarding requests from '' @ addr @ '' to '' @ resolved
                    @ '' with host '' @ host @ [CHR 0x0A],
                  ''Example GET:'' @ [CHR 0x0A],
                  ''  curl '' @ addr @ [CHR 0x0A],
                  ''  (curl -H '' @ [CHR 0x22] @ ''Host: '' @ host @ [CHR 0x22]
                    @ '' http://'' @ resolved @ '')'' @ [CHR 0x0A],
                  ''Example POST:'' @ [CHR 0x0A],
                  ''  curl --request POST '' @ addr @ '' --data '' @ [CHR 0x22] @ ''POST data''
                    @ [CHR 0x22] @ [CHR 0x0A],
                  ''  (curl --request POST -H '' @ [CHR 0x22] @ ''Host: '' @ host @ [CHR 0x22]
                    @ '' http://'' @ resolved @ '' --data '' @ [CHR 0x22] @ ''POST data''
                    @ [CHR 0x22] @ '')'' @ [CHR 0x0A],
                  ''Browser link:'' @ [CHR 0x0A],
                  ''  http://'' @ addr @ [CHR 0x0A],
                  [CHR 0x0A],
                  ''exiting because no-start flag was provided'' @ [CHR 0x0A]],
               Return None))"
proof
  show "\<not> serves (snd (RunE w gateway port True host))"
    by (cases "resolveGateway w gateway")
       (auto simp: RunE_def split: option.splits sum.splits)
next
  show "ValidateNamespace w = None
        \<and> (if gateway = '''' then ExtractIngressFromList (ListIngresses w) else Inr gateway)
            = Inr resolved
        \<and> Listen w port = Inr addr
        \<longrightarrow> RunE w gateway port True host
            = ((if gateway = ''''
                then [''Autodetecting app gateway. Specify a custom gateway using the --gateway flag.''
                        @ [CHR 0x0A]]
                else [])
               @ [''Forwarding requests from '' @ addr @ '' to '' @ resolved
                    @ '' with host '' @ host @ [CHR 0x0A],
                  ''Example GET:'' @ [CHR 0x0A],
                  ''  curl '' @ addr @ [CHR 0x0A],
                  ''  (curl -H '' @ [CHR 0x22] @ ''Host: '' @ host @ [CHR 0x22]
                    @ '' http://'' @ resolved @ '')'' @ [CHR 0x0A],
                  ''Example POST:'' @ [CHR 0x0A],
                  ''  curl --request POST '' @ addr @ '' --data '' @ [CHR 0x22] @ ''POST data''
                    @ [CHR 0x22] @ [CHR 0x0A],
                  ''  (curl --request POST -H '' @ [CHR 0x22] @ ''Host: '' @ host @ [CHR 0x22]
                    @ '' http://'' @ resolved @ '' --data '' @ [CHR 0x22] @ ''POST data''
                    @ [CHR 0x22] @ '')'' @ [CHR 0x0A],
                  ''Browser link:'' @ [CHR 0x0A],
                  ''  http://'' @ addr @ [CHR 0x0A],
                  [CHR 0x0A],
                  ''exiting because no-start flag was provided'' @ [CHR 0x0A]],
               Return None)"
    by (cases "gateway = ''''")
       (simp_all add: RunE_def resolveGateway_def banner_def newline_def quote_def)
qed

theorem dry_run_does_not_serve_witness:
  "ValidateNamespace (exampleWorld [''10.0.0.5:80'']) = None
   \<and> ExtractIngressFromList (ListIngresses (exampleWorld [''10.0.0.5:80''])) = Inr ''10.0.0.5:80''
   \<and> Listen (exampleWorld [''10.0.0.5:80'']) 8080 = Inr ''127.0.0.1:8080''
   \<and> RunE (exampleWorld [''10.0.0.5:80'']) '''' 8080 True ''myhost.example.com''
       = ([''Autodetecting app gateway. Specify a custom gateway using the --gateway flag.''
             @ [CHR 0x0A],
           ''Forwarding requests from 127.0.0.1:8080 to 10.0.0.5:80 with host myhost.example.com''
             @ [CHR 0x0A],
           ''Example GET:'' @ [CHR 0x0A],
           ''  curl 127.0.0.1:8080'' @ [CHR 0x0A],
           ''  (curl -H '' @ [CHR 0x22] @ ''Host: myhost.example.com'' @ [CHR 0x22]
             @ '' http://10.0.0.5:80)'' @ [CHR 0x0A],
           ''Example POST:'' @ [CHR 0x0A],
           ''  curl --request POST 127.0.0.1:8080 --data '' @ [CHR 0x22] @ ''POST data''
             @ [CHR 0x22] @ [CHR 0x0A],
           ''  (curl --request POST -H '' @ [CHR 0x22] @ ''Host: myhost.example.com'' @ [CHR 0x22]
             @ '' http://10.0.0.5:80 --data '' @ [CHR 0x22] @ ''POST data'' @ [CHR 0x22]
             @ '')'' @ [CHR 0x0A],
           ''Browser link:'' @ [CHR 0x0A],
           ''  http://127.0.0.1:8080'' @ [CHR 0x0A],
           [CHR 0x0A],
           ''exiting because no-start flag was provided'' @ [CHR 0x0A]],
          Return None)
   \<and> RunE (exampleWorld []) ''10.0.0.5:80'' 8080 True ''myhost.example.com''
       = ([''Forwarding requests from 127.0.0.1:8080 to 10.0.0.5:80 with host myhost.example.com''
             @ [CHR 0x0A],
           ''Example GET:'' @ [CHR 0x0A],
           ''  curl 127.0.0.1:8080'' @ [CHR 0x0A],
           ''  (curl -H '' @ [CHR 0x22] @ ''Host: myhost.example.com'' @ [CHR 0x22]
             @ '' http://10.0.0.5:80)'' @ [CHR 0x0A],
           ''Example POST:'' @ [CHR 0x0A],
           ''  curl --request POST 127.0.0.1:8080 --data '' @ [CHR 0x22] @ ''POST data''
             @ [CHR 0x22] @ [CHR 0x0A],
           ''  (curl --request POST -H '' @ [CHR 0x22] @ ''Host: myhost.example.com'' @ [CHR 0x22]
             @ '' http://10.0.0.5:80 --data '' @ [CHR 0x22] @ ''POST data'' @ [CHR 0x22]
             @ '')'' @ [CHR 0x0A],
           ''Browser link:'' @ [CHR 0x0A],
           ''  http://127.0.0.1:8080'' @ [CHR 0x0A],
           [CHR 0x0A],
           ''exiting because no-start flag was provided'' @ [CHR 0x0A]],
          Return None)"
proof -
  let ?w = "exampleWorld [''10.0.0.5:80'']"
  have pre: "ValidateNamespace ?w = None"
    "ExtractIngressFromList (ListIngresses ?w) = Inr ''10.0.0.5:80''"
    "Listen ?w 8080 = Inr ''127.0.0.1:8080''"
    by (simp_all add: exampleWorld_def ExtractIngressFromList_def)
  have pre': "ValidateNamespace (exampleWorld []) = None"
    "Listen (exampleWorld []) 8080 = Inr ''127.0.0.1:8080''"
    by (simp_all add: exampleWorld_def)
  have auto_detected: "(if '''' = '''' then ExtractIngressFromList (ListIngresses ?w) else Inr '''')
                       = Inr ''10.0.0.5:80''"
    using pre(2) by simp
  have flag: "(if ''10.0.0.5:80'' = '''' then ExtractIngressFromList (ListIngresses (exampleWorld []))
               else Inr ''10.0.0.5:80'') = Inr ''10.0.0.5:80''"
    by simp
  note run1 = dry_run_does_not_serve [of ?w "''''" 8080 "''myhost.example.com''"
      "''10.0.0.5:80''" "''127.0.0.1:8080''", THEN conjunct2, rule_format,
      OF conjI [OF pre(1) conjI [OF auto_detected pre(3)]]]
  note run2 = dry_run_does_not_serve [of "exampleWorld []" "''10.0.0.5:80''" 8080
      "''myhost.example.com''" "''10.0.0.5:80''" "''127.0.0.1:8080''", THEN conjunct2,
      rule_format, OF conjI [OF pre'(1) conjI [OF flag pre'(2)]]]
  show ?thesis
    using pre run1 run2 by simp
qed

end
